theory Spec2Isabelle
  imports Main
begin

section \<open>Python values used by the noexcept package\<close>

text \<open>
  Error codes are Python integers (unbounded), messages are strings. A Python \<open>dict\<close>
  keeps its keys in insertion order, and the rendered text of an exception depends on
  that order, so a dictionary is an association list without repeated keys.
\<close>

type_synonym 'v code_dict = "(int \<times> 'v) list"

text \<open>\<open>d[k] = v\<close>: an existing key keeps its position, a new key goes to the end.\<close>

fun dict_set :: "'k \<Rightarrow> 'v \<Rightarrow> ('k \<times> 'v) list \<Rightarrow> ('k \<times> 'v) list" where
  "dict_set k v [] = [(k, v)]"
| "dict_set k v ((k', v') # kvs) =
     (if k = k' then (k, v) # kvs else (k', v') # dict_set k v kvs)"

text \<open>\<open>k in d\<close>, \<open>d.get(k, dflt)\<close>, \<open>d.keys()\<close> and \<open>d.values()\<close>.\<close>

definition dict_has :: "'k \<Rightarrow> ('k \<times> 'v) list \<Rightarrow> bool" where
  "dict_has k d = (map_of d k \<noteq> None)"

definition dict_get :: "'k \<Rightarrow> 'v \<Rightarrow> ('k \<times> 'v) list \<Rightarrow> 'v" where
  "dict_get k dflt d = (case map_of d k of None \<Rightarrow> dflt | Some v \<Rightarrow> v)"

definition dict_keys :: "('k \<times> 'v) list \<Rightarrow> 'k list" where
  "dict_keys d = map fst d"

definition dict_values :: "('k \<times> 'v) list \<Rightarrow> 'v list" where
  "dict_values d = map snd d"

text \<open>\<open>str(n)\<close> for an integer: decimal digits, a minus sign for negative numbers.\<close>

definition digit_char :: "nat \<Rightarrow> char" where
  "digit_char d = ''0123456789'' ! d"

fun str_nat :: "nat \<Rightarrow> string" where
  "str_nat n = (if n < 10 then [digit_char n] else str_nat (n div 10) @ [digit_char (n mod 10)])"

declare str_nat.simps [simp del]

definition str_int :: "int \<Rightarrow> string" where
  "str_int i = (if i < 0 then CHR ''-'' # str_nat (nat (- i)) else str_nat (nat i))"

text \<open>\<open>f"Error {code}"\<close>, the message of a code that has no message of its own.\<close>

definition default_msg :: "int \<Rightarrow> string" where
  "default_msg code = ''Error '' @ str_int code"

text \<open>
  Truthiness of an \<open>Optional[str]\<close>: \<open>None\<close> and the empty string are false.
  \<open>x or dflt\<close> is \<open>x\<close> when \<open>x\<close> is true and \<open>dflt\<close> otherwise.
\<close>

definition truthy :: "string option \<Rightarrow> bool" where
  "truthy s = (case s of None \<Rightarrow> False | Some t \<Rightarrow> t \<noteq> [])"

definition str_or :: "string option \<Rightarrow> string \<Rightarrow> string" where
  "str_or s dflt = (if truthy s then the s else dflt)"

text \<open>\<open>sep.join(xs)\<close>.\<close>

fun join :: "string \<Rightarrow> string list \<Rightarrow> string" where
  "join sep [] = []"
| "join sep [x] = x"
| "join sep (x # y # ys) = x @ sep @ join sep (y # ys)"

section \<open>exception.py: NoBaseException\<close>

text \<open>
  A source location recorded for a linked exception: \<open>(filename, lineno)\<close> of the
  innermost traceback frame, or \<open>(None, None)\<close> (here \<open>None\<close>) without a traceback.
\<close>

type_synonym location = "(string \<times> int) option"

type_synonym linked_dict = "((string \<times> string) \<times> location set) list"

text \<open>
  The attributes of a \<open>NoBaseException\<close>. \<open>cls\<close> is the name of its class
  (\<open>NoBaseException\<close> or a generated \<open>Error{code}\<close> subclass). \<open>args_text\<close> is the
  single argument given to \<open>Exception.__init__\<close>; the class defines no \<open>__str__\<close>,
  so \<open>str(exc)\<close> is this argument. The two \<open>_defaultdict\<close> slots are unset
  (\<open>None\<close>) until \<open>addMessage\<close> or \<open>_recordLinkedException\<close> first fills them.
\<close>

record NoBaseException =
  cls :: string
  nos :: "string list code_dict"
  softCodes :: "bool code_dict"
  linked :: linked_dict
  nos_defaultdict :: "string list code_dict option"
  linked_defaultdict :: "linked_dict option"
  args_text :: string

text \<open>\<open>_composeText\<close>: the header \<open>[c1,c2,...]\<close>, then one line per message.\<close>

definition composeText :: "string list code_dict \<Rightarrow> string" where
  "composeText d =
     ''['' @ join '','' (map str_int (dict_keys d)) @ '']'' @
     concat (map (\<lambda>msg. CHR 0x0A # msg) (concat (dict_values d)))"

text \<open>
  \<open>__init__(code, complaint, codes, linked, defaultComplaint, softCodes)\<close>, for an
  instance of the class named \<open>cl\<close>. An absent keyword argument is \<open>None\<close>.
\<close>

definition NoBaseException_init ::
  "string \<Rightarrow> int \<Rightarrow> string option \<Rightarrow> string list code_dict option \<Rightarrow> linked_dict option \<Rightarrow>
   string option \<Rightarrow> bool code_dict option \<Rightarrow> NoBaseException" where
  "NoBaseException_init cl code complaint codes linked0 defaultComplaint softCodes0 =
     (let nos0 = (case codes of None \<Rightarrow> [] | Some d \<Rightarrow> d);
          nos1 = (if dict_has code nos0 then nos0
                  else dict_set code [str_or defaultComplaint (default_msg code)] nos0);
          nos2 = (if truthy complaint
                  then dict_set code (dict_get code [] nos1 @ [the complaint]) nos1
                  else nos1)
      in \<lparr> cls = cl,
           nos = nos2,
           softCodes = (case softCodes0 of None \<Rightarrow> [] | Some s \<Rightarrow> s),
           linked = (case linked0 of None \<Rightarrow> [] | Some l \<Rightarrow> l),
           nos_defaultdict = None,
           linked_defaultdict = None,
           args_text = composeText nos2 \<rparr>)"

text \<open>\<open>str(exc)\<close> and the \<open>complaints\<close> property (all messages, flattened).\<close>

definition str_exc :: "NoBaseException \<Rightarrow> string" where
  "str_exc e = args_text e"

definition complaints :: "NoBaseException \<Rightarrow> string list" where
  "complaints e = concat (dict_values (nos e))"

text \<open>
  \<open>addMessage\<close>. The first call copies \<open>nos\<close> into a \<open>defaultdict(list)\<close> that is kept
  for the lifetime of the object; every call appends to the entry of that defaultdict
  (an absent key starts from the empty list) and then replaces \<open>nos\<close> by a copy of the
  defaultdict. The lists of the keys that the defaultdict holds are shared with \<open>nos\<close>,
  and nothing else appends to them after construction, so the defaultdict's lists are
  the current ones for those keys.
\<close>

definition addMessage :: "int \<Rightarrow> string option \<Rightarrow> NoBaseException \<Rightarrow> NoBaseException" where
  "addMessage code complaint e =
     (if truthy complaint then
        (let dd0 = (case nos_defaultdict e of None \<Rightarrow> nos e | Some d \<Rightarrow> d);
             dd1 = dict_set code (dict_get code [] dd0 @ [the complaint]) dd0
         in e\<lparr> nos_defaultdict := Some dd1, nos := dd1 \<rparr>)
      else e)"

text \<open>\<open>addCode\<close>: only a code that is not yet a key of \<open>nos\<close> is added.\<close>

definition addCode :: "int \<Rightarrow> string option \<Rightarrow> NoBaseException \<Rightarrow> NoBaseException" where
  "addCode code defaultComplaint e =
     (if dict_has code (nos e) then e
      else e\<lparr> nos := dict_set code [str_or defaultComplaint (default_msg code)] (nos e) \<rparr>)"

text \<open>
  An exception object handed to the package: a foreign exception with the name of its
  type, its \<open>str()\<close> and the innermost frame of its traceback, or one of the package's
  own exceptions together with the innermost frame of its traceback.
\<close>

datatype exc_value =
    Foreign string string location
  | Own NoBaseException location

fun exc_type_name :: "exc_value \<Rightarrow> string" where
  "exc_type_name (Foreign t s l) = t"
| "exc_type_name (Own e l) = cls e"

fun exc_str :: "exc_value \<Rightarrow> string" where
  "exc_str (Foreign t s l) = s"
| "exc_str (Own e l) = str_exc e"

fun exc_location :: "exc_value \<Rightarrow> location" where
  "exc_location (Foreign t s l) = l"
| "exc_location (Own e l) = l"

text \<open>
  \<open>_recordLinkedException\<close>: the key is \<open>(type(exception), str(exception))\<close>, the
  location is added to the set kept under that key in a \<open>defaultdict(set)\<close>, and
  \<open>linked\<close> becomes a copy of the defaultdict.
\<close>

definition recordLinkedException :: "exc_value \<Rightarrow> NoBaseException \<Rightarrow> NoBaseException" where
  "recordLinkedException x e =
     (let key = (exc_type_name x, exc_str x);
          loc = exc_location x;
          dd0 = (case linked_defaultdict e of None \<Rightarrow> linked e | Some d \<Rightarrow> d);
          dd1 = dict_set key (insert loc (dict_get key {} dd0)) dd0
      in e\<lparr> linked_defaultdict := Some dd1, linked := dd1 \<rparr>)"

section \<open>exception.py: NoBuilder\<close>

record NoBuilder =
  b_codes :: "string list code_dict"
  b_linked :: "exc_value list"
  b_soft_codes :: "bool code_dict"

definition NoBuilder_init :: NoBuilder where
  "NoBuilder_init = \<lparr> b_codes = [], b_linked = [], b_soft_codes = [] \<rparr>"

definition withCode :: "int \<Rightarrow> string option \<Rightarrow> NoBuilder \<Rightarrow> NoBuilder" where
  "withCode code complaint b =
     (let c0 = (if dict_has code (b_codes b) then b_codes b else dict_set code [] (b_codes b));
          c1 = (if truthy complaint
                then dict_set code (dict_get code [] c0 @ [the complaint]) c0 else c0)
      in b\<lparr> b_codes := c1 \<rparr>)"

definition withLinked :: "exc_value \<Rightarrow> NoBuilder \<Rightarrow> NoBuilder" where
  "withLinked x b = b\<lparr> b_linked := b_linked b @ [x] \<rparr>"

definition asSoft :: "int \<Rightarrow> NoBuilder \<Rightarrow> NoBuilder" where
  "asSoft code b = b\<lparr> b_soft_codes := dict_set code True (b_soft_codes b) \<rparr>"

datatype build_error = ValueError_no_code

text \<open>
  \<open>build\<close>. The exception is constructed from the first code, that code's first
  complaint (if it has one) and a shallow copy of the builder's dictionary: the
  message lists are shared, so the complaint that \<open>__init__\<close> appends also lands in the
  builder's own list. The result is the exception and the builder after the call.
\<close>

definition build :: "NoBuilder \<Rightarrow> build_error + (NoBaseException \<times> NoBuilder)" where
  "build b =
     (case b_codes b of
        [] \<Rightarrow> Inl ValueError_no_code
      | (primary_code, primary_complaints) # _ \<Rightarrow>
          (let primary_complaint =
                 (case primary_complaints of [] \<Rightarrow> None | c # _ \<Rightarrow> Some c);
               exc = NoBaseException_init ''NoBaseException'' primary_code primary_complaint
                       (Some (b_codes b)) None None (Some (b_soft_codes b));
               exc' = fold recordLinkedException (b_linked b) exc
           in Inr (exc', b\<lparr> b_codes := nos exc \<rparr>)))"

section \<open>module.py: NoModule\<close>

text \<open>
  A registry entry is the tuple \<open>(name, defaultComplaint, linkedCodes, soft)\<close>.
  The registry (\<open>RMDict\<close>) and the shared pending block (\<open>RMBlock\<close>) come from the
  \<open>rememory\<close> package, which is not part of the repository: the registry is taken as a
  dictionary and the block as one optional value. \<open>thread_local_pending\<close> is the
  \<open>pending\<close> attribute of the calling thread's \<open>threading.local\<close> (\<open>None\<close> also when the
  attribute was never set), \<open>attrs\<close> the names of the generated exception classes set
  on the module, and \<open>stdout\<close> what \<open>print\<close> has written, one entry per call.
\<close>

type_synonym registry_entry = "string \<times> string \<times> int list \<times> bool"

record NoModule =
  registry :: "int \<rightharpoonup> registry_entry"
  pending_value :: "NoBaseException option"
  thread_local_pending :: "NoBaseException option"
  hideTraceback :: bool
  attrs :: "string set"
  stdout :: "string list"

definition NoModule_init :: NoModule where
  "NoModule_init = \<lparr> registry = Map.empty, pending_value = None, thread_local_pending = None,
                      hideTraceback = False, attrs = {}, stdout = [] \<rparr>"

text \<open>\<open>likey\<close>: a code that is already in the registry is left alone.\<close>

definition likey :: "int \<Rightarrow> string \<Rightarrow> int list option \<Rightarrow> bool \<Rightarrow> NoModule \<Rightarrow> NoModule" where
  "likey code defaultComplaint linkedCodes soft m =
     (let name = ''Error'' @ str_int code;
          registry_entry =
            (name,
             (if defaultComplaint \<noteq> [] then defaultComplaint else default_msg code),
             (case linkedCodes of None \<Rightarrow> [] | Some l \<Rightarrow> l),
             soft)
      in if registry m code \<noteq> None then m
         else m\<lparr> attrs := insert name (attrs m),
                 registry := (registry m)(code \<mapsto> registry_entry) \<rparr>)"

text \<open>\<open>dice\<close> empties both pending slots; \<open>traceback\<close> switches to print-and-exit.\<close>

definition dice :: "NoModule \<Rightarrow> NoModule" where
  "dice m = m\<lparr> pending_value := None, thread_local_pending := None \<rparr>"

definition traceback :: "NoModule \<Rightarrow> NoModule" where
  "traceback m = m\<lparr> hideTraceback := True \<rparr>"

text \<open>\<open>self._registry.get(code, dflt)\<close> and the components that the code reads.\<close>

definition registry_get :: "NoModule \<Rightarrow> int \<Rightarrow> registry_entry \<Rightarrow> registry_entry" where
  "registry_get m code dflt = (case registry m code of None \<Rightarrow> dflt | Some r \<Rightarrow> r)"

definition entry_msg :: "registry_entry \<Rightarrow> string" where
  "entry_msg r = fst (snd r)"

definition entry_soft :: "registry_entry \<Rightarrow> bool" where
  "entry_soft r = snd (snd (snd r))"

text \<open>
  \<open>propagate\<close> and the loop body over \<open>linkedCodes\<close> in \<open>_makeOne\<close> do the same:
  add the code with its registered message and set its soft flag on the exception.
\<close>

definition propagate :: "NoModule \<Rightarrow> int \<Rightarrow> NoBaseException \<Rightarrow> NoBaseException" where
  "propagate m newCode exc =
     (let msg = entry_msg (registry_get m newCode ([], default_msg newCode, [], False));
          soft = entry_soft (registry_get m newCode ([], [], [], False));
          exc1 = addCode newCode (Some msg) exc
      in exc1\<lparr> softCodes := dict_set newCode soft (softCodes exc1) \<rparr>)"

text \<open>
  \<open>_makeOne\<close>. The class of a registered code is looked up by name on the module and
  created there when it is missing, so the module is returned as well.
\<close>

definition makeOne ::
  "int \<Rightarrow> string option \<Rightarrow> exc_value list \<Rightarrow> NoModule \<Rightarrow> NoBaseException \<times> NoModule" where
  "makeOne code complaint linked0 m =
     (case registry_get m code (''NoBaseException'', default_msg code, [], False) of
        (excName, defaultMsg, linkedCodes, softFlag) \<Rightarrow>
          (let m' = (if excName = ''NoBaseException'' \<or> excName \<in> attrs m then m
                     else m\<lparr> attrs := insert excName (attrs m) \<rparr>);
               exc0 = NoBaseException_init excName code complaint None (Some [])
                        (Some defaultMsg) (Some [(code, softFlag)]);
               exc1 = fold recordLinkedException linked0 exc0;
               exc2 = fold (propagate m) linkedCodes exc1
           in (exc2, m')))"

text \<open>
  The properties \<open>bueno\<close>, \<open>complaints\<close> and \<open>nos\<close> of the module. Without a pending
  exception the last two fall back to the exception that is being handled
  (\<open>sys.exc_info()\<close>), given here as \<open>caught\<close>.
\<close>

definition bueno :: "NoModule \<Rightarrow> bool" where
  "bueno m = (thread_local_pending m \<noteq> None \<or> pending_value m \<noteq> None)"

definition stash :: "NoBaseException option \<Rightarrow> NoModule \<Rightarrow> NoBaseException option" where
  "stash caught m =
     (case thread_local_pending m of
        Some p \<Rightarrow> Some p
      | None \<Rightarrow> (case pending_value m of Some p \<Rightarrow> Some p | None \<Rightarrow> caught))"

definition module_complaints :: "NoBaseException option \<Rightarrow> NoModule \<Rightarrow> string list" where
  "module_complaints caught m =
     (case stash caught m of None \<Rightarrow> [] | Some s \<Rightarrow> concat (dict_values (nos s)))"

definition module_nos :: "NoBaseException option \<Rightarrow> NoModule \<Rightarrow> string list code_dict" where
  "module_nos caught m = (case stash caught m of None \<Rightarrow> [] | Some s \<Rightarrow> nos s)"

section \<open>call.py: the dispatcher\<close>

text \<open>
  The receiver of a call is the module (\<open>isModule\<close> is true) or an exception instance.
  A call ends by returning, by raising one exception, by raising an \<open>ExceptionGroup\<close>,
  by a \<open>TypeError\<close> for unsupported arguments, or by \<open>sys.exit\<close>. \<open>ExceptionGroup\<close>
  refuses an empty sequence with a \<open>ValueError\<close>, and \<open>exceptions[0]\<close> of an empty list
  is an \<open>IndexError\<close>.
\<close>

datatype call_context = Module | Instance NoBaseException

datatype outcome =
    Returned
  | Raised NoBaseException
  | RaisedGroup string "NoBaseException list"
  | RaisedValueError
  | RaisedIndexError
  | RaisedTypeError
  | SystemExit int

text \<open>A positional argument, classified as the pattern checkers see it.\<close>

datatype arg = AInt int | AStr string | AList "int list" | AExc exc_value | AOther

definition getPending :: "NoModule \<Rightarrow> NoBaseException option" where
  "getPending m =
     (case thread_local_pending m of Some p \<Rightarrow> Some p | None \<Rightarrow> pending_value m)"

definition setPending :: "NoBaseException option \<Rightarrow> NoModule \<Rightarrow> NoModule" where
  "setPending exc m = m\<lparr> thread_local_pending := exc \<rparr>"

definition getRegistryEntry :: "call_context \<Rightarrow> int \<Rightarrow> NoModule \<Rightarrow> bool \<times> string" where
  "getRegistryEntry ctx code m =
     (case ctx of
        Module \<Rightarrow>
          (let registry_entry = registry_get m code ([], default_msg code, [], False)
           in (entry_soft registry_entry, entry_msg registry_entry))
      | Instance c \<Rightarrow> (dict_get code False (softCodes c), default_msg code))"

text \<open>\<open>raze\<close>: print the exception and leave with status 1.\<close>

definition raze :: "NoBaseException \<Rightarrow> NoModule \<Rightarrow> outcome \<times> NoModule" where
  "raze exc m = (SystemExit 1, m\<lparr> stdout := stdout m @ [str_exc exc] \<rparr>)"

definition handleSoftOrRaise ::
  "NoBaseException \<Rightarrow> bool \<Rightarrow> bool \<Rightarrow> NoModule \<Rightarrow> outcome \<times> NoModule" where
  "handleSoftOrRaise exc softFlag soften m =
     (if softFlag \<or> soften then (Returned, setPending (Some exc) m)
      else if hideTraceback m then raze exc m
      else (Raised exc, m))"

text \<open>
  Every handler gives the outcome, the receiver after the call (an instance receiver
  is changed in place) and the module after the call.
\<close>

definition handleEmptyCall :: "call_context \<Rightarrow> NoModule \<Rightarrow> outcome \<times> call_context \<times> NoModule" where
  "handleEmptyCall ctx m =
     (case getPending m of
        Some pending \<Rightarrow>
          (if hideTraceback m then (case raze pending m of (out, m') \<Rightarrow> (out, ctx, m'))
           else (Raised pending, ctx, m))
      | None \<Rightarrow>
          (case ctx of
             Module \<Rightarrow>
               (case makeOne 0 None [] m of
                  (exception, m1) \<Rightarrow>
                    (if hideTraceback m1
                     then (case raze exception m1 of (out, m') \<Rightarrow> (out, ctx, m'))
                     else (Raised exception, ctx, m1)))
           | Instance c \<Rightarrow>
               (if hideTraceback m then (case raze c m of (out, m') \<Rightarrow> (out, ctx, m'))
                else (Raised c, ctx, m))))"

text \<open>The list comprehension over \<open>_makeOne\<close>, threading the module through.\<close>

fun makeAll :: "int list \<Rightarrow> string option \<Rightarrow> NoModule \<Rightarrow> NoBaseException list \<times> NoModule" where
  "makeAll [] complaint m = ([], m)"
| "makeAll (c # cs) complaint m =
     (case makeOne c complaint [] m of
        (e, m1) \<Rightarrow> (case makeAll cs complaint m1 of (es, m2) \<Rightarrow> (e # es, m2)))"

definition raiseGroup :: "NoBaseException list \<Rightarrow> outcome" where
  "raiseGroup exceptions =
     (if exceptions = [] then RaisedValueError else RaisedGroup ''Multiple errors'' exceptions)"

definition handleExceptionGroup ::
  "call_context \<Rightarrow> int list \<Rightarrow> string option \<Rightarrow> NoModule \<Rightarrow> outcome \<times> call_context \<times> NoModule" where
  "handleExceptionGroup ctx codes complaint m =
     (case ctx of
        Module \<Rightarrow>
          (case makeAll codes complaint m of
             (exceptions, m1) \<Rightarrow> (raiseGroup exceptions, ctx, m1))
      | Instance c \<Rightarrow>
          (let exceptions =
                 map (\<lambda>cd. NoBaseException_init (cls c) cd complaint None None None None) codes
           in if hideTraceback m then
                (case exceptions of
                   [] \<Rightarrow> (RaisedIndexError, ctx, m)
                 | e # _ \<Rightarrow> (case raze e m of (out, m') \<Rightarrow> (out, ctx, m')))
              else (raiseGroup exceptions, ctx, m)))"

text \<open>
  The three steps that merge a code into an existing exception (the pending one, or an
  instance receiver): \<open>addCode\<close>, \<open>addMessage\<close>, and the entry of \<open>_softCodes\<close>. The
  single-code handler calls \<open>addMessage\<close> under \<open>if complaint\<close>, the code+message
  handler calls it directly.
\<close>

definition mergeCode ::
  "int \<Rightarrow> string \<Rightarrow> string option \<Rightarrow> bool \<Rightarrow> NoBaseException \<Rightarrow> NoBaseException" where
  "mergeCode code defaultMsg complaint softFlag e =
     (let e1 = addCode code (Some defaultMsg) e;
          e2 = (if truthy complaint then addMessage code complaint e1 else e1)
      in e2\<lparr> softCodes := dict_set code softFlag (softCodes e2) \<rparr>)"

definition mergeCodeMessage ::
  "int \<Rightarrow> string \<Rightarrow> string \<Rightarrow> bool \<Rightarrow> NoBaseException \<Rightarrow> NoBaseException" where
  "mergeCodeMessage code defaultMsg complaint softFlag e =
     (let e1 = addCode code (Some defaultMsg) e;
          e2 = addMessage code (Some complaint) e1
      in e2\<lparr> softCodes := dict_set code softFlag (softCodes e2) \<rparr>)"

text \<open>
  \<open>_handleSingleCode\<close>. After \<open>_handleSoftOrRaise\<close> has stored a soft exception the
  function goes on with the next block: there is no \<open>return\<close> after 3b or 3c.
\<close>

definition freshException ::
  "call_context \<Rightarrow> int \<Rightarrow> string option \<Rightarrow> NoModule \<Rightarrow> NoBaseException \<times> NoModule" where
  "freshException ctx code complaint m =
     (case ctx of
        Module \<Rightarrow> makeOne code complaint [] m
      | Instance c \<Rightarrow> (NoBaseException_init (cls c) code complaint None None None None, m))"

definition handleSingleCode ::
  "call_context \<Rightarrow> int \<Rightarrow> string option \<Rightarrow> bool \<Rightarrow> exc_value option \<Rightarrow> NoModule \<Rightarrow>
   outcome \<times> call_context \<times> NoModule" where
  "handleSingleCode ctx code complaint soften exception m =
     (case getRegistryEntry ctx code m of
        (softFlag, defaultMsg) \<Rightarrow>
          (case getPending m of
             Some pending \<Rightarrow>
               (Returned, ctx,
                setPending (Some (mergeCode code defaultMsg complaint softFlag pending)) m)
           | None \<Rightarrow>
               (case (case (ctx, exception) of
                        (Module, Some (Own e l)) \<Rightarrow>
                          (let e1 = propagate m code e;
                               e2 = (if truthy complaint then addMessage code complaint e1 else e1);
                               e3 = e2\<lparr> softCodes := dict_set code softFlag (softCodes e2) \<rparr>
                           in handleSoftOrRaise e3 softFlag soften m)
                      | _ \<Rightarrow> (Returned, m)) of
                  (out_b, m_b) \<Rightarrow>
                    if out_b \<noteq> Returned then (out_b, ctx, m_b)
                    else
                      (case (case ctx of
                               Instance c \<Rightarrow>
                                 (let c1 = mergeCode code defaultMsg complaint softFlag c
                                  in (case handleSoftOrRaise c1 softFlag soften m_b of
                                        (out, m') \<Rightarrow> (out, Instance c1, m')))
                             | Module \<Rightarrow> (Returned, ctx, m_b)) of
                         (out_c, ctx_c, m_c) \<Rightarrow>
                           if out_c \<noteq> Returned then (out_c, ctx_c, m_c)
                           else
                             (case freshException ctx_c code complaint m_c of
                                (exc, m_d) \<Rightarrow>
                                  (case handleSoftOrRaise exc softFlag soften m_d of
                                     (out, m') \<Rightarrow> (out, ctx_c, m')))))))"

definition handleCodeExceptionLink ::
  "call_context \<Rightarrow> int \<Rightarrow> exc_value \<Rightarrow> string option \<Rightarrow> bool \<Rightarrow> NoModule \<Rightarrow>
   outcome \<times> call_context \<times> NoModule" where
  "handleCodeExceptionLink ctx code exception complaint soften m =
     (case getRegistryEntry ctx code m of
        (softFlag, defaultMsg) \<Rightarrow>
          (case ctx of
             Module \<Rightarrow>
               (case makeOne code complaint [exception] m of
                  (exc, m1) \<Rightarrow>
                    (case handleSoftOrRaise exc softFlag soften m1 of
                       (out, m') \<Rightarrow> (out, ctx, m')))
           | Instance c \<Rightarrow>
               (let c1 = addCode code (Some defaultMsg) c;
                    c2 = recordLinkedException exception c1
                in (case handleSoftOrRaise c2 softFlag soften m of
                      (out, m') \<Rightarrow> (out, Instance c2, m')))))"

definition handleCodeMessage ::
  "call_context \<Rightarrow> int \<Rightarrow> string \<Rightarrow> bool \<Rightarrow> NoModule \<Rightarrow> outcome \<times> call_context \<times> NoModule" where
  "handleCodeMessage ctx code complaint soften m =
     (case getRegistryEntry ctx code m of
        (softFlag, defaultMsg) \<Rightarrow>
          (case getPending m of
             Some pending \<Rightarrow>
               (Returned, ctx,
                setPending
                  (Some (mergeCodeMessage code defaultMsg complaint softFlag pending)) m)
           | None \<Rightarrow>
               (case (case ctx of
                        Instance c \<Rightarrow>
                          (let c1 = mergeCodeMessage code defaultMsg complaint softFlag c
                           in (case handleSoftOrRaise c1 softFlag soften m of
                                 (out, m') \<Rightarrow> (out, Instance c1, m')))
                      | Module \<Rightarrow> (Returned, ctx, m)) of
                  (out_c, ctx_c, m_c) \<Rightarrow>
                    if out_c \<noteq> Returned then (out_c, ctx_c, m_c)
                    else
                      (case freshException ctx_c code (Some complaint) m_c of
                         (exc, m_d) \<Rightarrow>
                           (case handleSoftOrRaise exc softFlag soften m_d of
                              (out, m') \<Rightarrow> (out, ctx_c, m'))))))"

text \<open>
  \<open>_handleCall\<close>: the shortcut for the bare empty call, then the first pattern of
  \<open>CALL_HANDLERS\<close> that matches, in the order of the table.
\<close>

fun dispatch ::
  "call_context \<Rightarrow> arg list \<Rightarrow> string option \<Rightarrow> bool \<Rightarrow> NoModule \<Rightarrow> outcome \<times> call_context \<times> NoModule" where
  "dispatch ctx [] complaint soften m = handleEmptyCall ctx m"
| "dispatch ctx [AList codes] complaint soften m = handleExceptionGroup ctx codes complaint m"
| "dispatch ctx [AExc x] complaint soften m = (Returned, ctx, m)"
| "dispatch ctx [AInt code] complaint soften m =
     handleSingleCode ctx code complaint soften None m"
| "dispatch ctx [AInt code, AExc x] complaint soften m =
     handleCodeExceptionLink ctx code x complaint soften m"
| "dispatch ctx [AInt code, AStr s] complaint soften m = handleCodeMessage ctx code s soften m"
| "dispatch ctx args complaint soften m = (RaisedTypeError, ctx, m)"

definition handleCall ::
  "call_context \<Rightarrow> arg list \<Rightarrow> string option \<Rightarrow> bool \<Rightarrow> NoModule \<Rightarrow> outcome \<times> call_context \<times> NoModule" where
  "handleCall ctx args complaint soften m =
     (if args = [] \<and> complaint = None \<and> \<not> soften then handleEmptyCall ctx m
      else dispatch ctx args complaint soften m)"

section \<open>Scenarios and auxiliary notions used in the statements\<close>

text \<open>
  The operations that can change an exception after it has been constructed:
  \<open>addCode\<close>, \<open>addMessage\<close>, \<open>_recordLinkedException\<close> and an assignment to an entry of
  \<open>_softCodes\<close>, as the dispatcher and \<open>_makeOne\<close> perform them.
\<close>

datatype mutation =
    AddCode int "string option"
  | AddMessage int "string option"
  | RecordLinked exc_value
  | SetSoft int bool

fun mutate :: "mutation \<Rightarrow> NoBaseException \<Rightarrow> NoBaseException" where
  "mutate (AddCode c d) e = addCode c d e"
| "mutate (AddMessage c msg) e = addMessage c msg e"
| "mutate (RecordLinked x) e = recordLinkedException x e"
| "mutate (SetSoft c s) e = e\<lparr> softCodes := dict_set c s (softCodes e) \<rparr>"

text \<open>
  The builder after \<open>withCode(404, "Not Found")\<close>, \<open>withCode(500, "Server Error")\<close> and
  \<open>withCode(500, "extra")\<close>.
\<close>

definition builder_404_500 :: NoBuilder where
  "builder_404_500 =
     withCode 500 (Some ''extra'')
       (withCode 500 (Some ''Server Error'')
          (withCode 404 (Some ''Not Found'') NoBuilder_init))"

text \<open>
  A call on the module, split into what it leaves behind and how it ends, and \<open>n\<close>
  successive calls \<open>no(c)\<close> on the module (each one returns in the scenarios below).
\<close>

definition call_on_module :: "arg list \<Rightarrow> string option \<Rightarrow> bool \<Rightarrow> NoModule \<Rightarrow> NoModule" where
  "call_on_module args complaint soften m = snd (snd (handleCall Module args complaint soften m))"

definition call_outcome :: "arg list \<Rightarrow> string option \<Rightarrow> bool \<Rightarrow> NoModule \<Rightarrow> outcome" where
  "call_outcome args complaint soften m = fst (handleCall Module args complaint soften m)"

fun repeat_code :: "nat \<Rightarrow> int \<Rightarrow> NoModule \<Rightarrow> NoModule" where
  "repeat_code 0 c m = m"
| "repeat_code (Suc n) c m = call_on_module [AInt c] None False (repeat_code n c m)"

text \<open>
  What the registry says about a code: its soft flag and its message, with the defaults
  of an unregistered code; and the first message that \<open>_makeOne\<close> gives a code.
\<close>

definition registered_soft :: "NoModule \<Rightarrow> int \<Rightarrow> bool" where
  "registered_soft m c = (case registry m c of None \<Rightarrow> False | Some r \<Rightarrow> entry_soft r)"

definition registered_msg :: "NoModule \<Rightarrow> int \<Rightarrow> string" where
  "registered_msg m c = (case registry m c of None \<Rightarrow> default_msg c | Some r \<Rightarrow> entry_msg r)"

definition first_message :: "NoModule \<Rightarrow> int \<Rightarrow> string" where
  "first_message m c = str_or (Some (registered_msg m c)) (default_msg c)"

text \<open>The messages that a call's \<open>complaint\<close> contributes: itself, unless it is empty.\<close>

definition complaint_list :: "string option \<Rightarrow> string list" where
  "complaint_list complaint = (if truthy complaint then [the complaint] else [])"

text \<open>
  The merge of a code into a message dictionary in the words of the specification:
  insert the code with its default message if it is absent, then append the extra
  message, if there is one, to the code's messages.
\<close>

definition spec_merge_messages ::
  "int \<Rightarrow> string \<Rightarrow> string option \<Rightarrow> string list code_dict \<Rightarrow> string list code_dict" where
  "spec_merge_messages code defaultMsg complaint d =
     (let d1 = (if dict_has code d then d else dict_set code [defaultMsg] d)
      in if truthy complaint then dict_set code (dict_get code [] d1 @ [the complaint]) d1
         else d1)"

text \<open>
  The raise-or-stash policy in the words of the specification, for a module call that
  has produced the exception \<open>exc\<close> and left the module \<open>m\<close>: a soft call stores the
  exception in the pending slot of the call scope and returns; a hard call raises it,
  or, when tracebacks are hidden, prints its text and exits with status 1.
\<close>

definition raise_or_stash ::
  "bool \<Rightarrow> NoBaseException \<times> NoModule \<Rightarrow> outcome \<times> call_context \<times> NoModule" where
  "raise_or_stash soft em =
     (case em of
        (exc, m) \<Rightarrow>
          if soft then (Returned, Module, m\<lparr> thread_local_pending := Some exc \<rparr>)
          else if hideTraceback m
               then (SystemExit 1, Module, m\<lparr> stdout := stdout m @ [str_exc exc] \<rparr>)
               else (Raised exc, Module, m))"

text \<open>The exception that \<open>_makeOne\<close> builds for a code that is not in the registry.\<close>

definition unregistered_exc :: "int \<Rightarrow> string option \<Rightarrow> NoBaseException" where
  "unregistered_exc c complaint =
     \<lparr> cls = ''NoBaseException'',
       nos = [(c, default_msg c # complaint_list complaint)],
       softCodes = [(c, False)], linked = [],
       nos_defaultdict = None, linked_defaultdict = None,
       args_text = composeText [(c, default_msg c # complaint_list complaint)] \<rparr>"

text \<open>
  Concrete modules and exceptions: code 1001 registered soft without a message; the
  module after \<open>no(1, soften=True)\<close>, and after \<open>no(1, complaint="a")\<close> on top of that;
  the exception \<open>NoBaseException(5)\<close>.
\<close>

definition module_1001 :: NoModule where
  "module_1001 = likey 1001 [] None True NoModule_init"

definition pending_scenario_1 :: NoModule where
  "pending_scenario_1 = call_on_module [AInt 1] None True NoModule_init"

definition pending_scenario_2 :: NoModule where
  "pending_scenario_2 = call_on_module [AInt 1] (Some ''a'') False pending_scenario_1"

definition exc_5 :: NoBaseException where
  "exc_5 = NoBaseException_init ''NoBaseException'' 5 None None None None None"

text \<open>
  The module with code 404 registered hard, after \<open>no(1, soften=True)\<close>; and the module
  with code 7 registered soft.
\<close>

definition module_404_pending :: NoModule where
  "module_404_pending =
     call_on_module [AInt 1] None True (likey 404 ''Not Found'' None False NoModule_init)"

definition module_7_soft :: NoModule where
  "module_7_soft = likey 7 [] None True NoModule_init"


section \<open>Evaluation rules\<close>

lemmas value_defs = dict_has_def dict_get_def dict_keys_def dict_values_def digit_char_def
  str_nat.simps str_int_def default_msg_def truthy_def str_or_def Let_def

lemmas exception_defs = composeText_def NoBaseException_init_def str_exc_def complaints_def
  addMessage_def addCode_def recordLinkedException_def

lemmas builder_defs = NoBuilder_init_def withCode_def withLinked_def asSoft_def build_def

section \<open>The registry is write-once\<close>

text \<open>
  C5. Registering a code a second time, with any message, linked codes or soft flag,
  changes nothing and raises nothing (\<open>likey\<close> has no failing branch): the module after
  the second \<open>likey\<close> is the module after the first, and a code that was new at the first
  registration keeps the first registration's name, message, linked codes and soft flag.
\<close>

theorem likey_write_once:
  "likey c d2 l2 s2 (likey c d1 l1 s1 m) = likey c d1 l1 s1 m \<and>
   (registry m c = None \<longrightarrow>
      registry (likey c d2 l2 s2 (likey c d1 l1 s1 m)) c =
        Some (''Error'' @ str_int c, (if d1 \<noteq> [] then d1 else default_msg c),
              (case l1 of None \<Rightarrow> [] | Some l \<Rightarrow> l), s1))"
  by (simp add: likey_def Let_def)

theorem likey_write_once_witness:
  "registry NoModule_init 404 = None \<and>
   registry (likey 404 ''Other'' (Some [1, 2]) True
              (likey 404 ''Not Found'' None False NoModule_init)) 404 =
     Some (''Error404'', ''Not Found'', [], False)"
  using likey_write_once [of 404 "''Other''" "Some [1, 2]" True "''Not Found''" None False
                             NoModule_init]
  by (simp add: NoModule_init_def likey_def value_defs)

section \<open>The text of an exception\<close>

lemma args_text_mutate: "args_text (mutate mu e) = args_text e"
  by (cases mu) (simp_all add: addCode_def addMessage_def recordLinkedException_def Let_def)

lemma args_text_fold_mutate: "args_text (fold mutate ms e) = args_text e"
  by (induction ms arbitrary: e) (simp_all add: args_text_mutate)

lemma args_text_init:
  "args_text (NoBaseException_init cl code complaint codes lnk dflt soft) =
     composeText (nos (NoBaseException_init cl code complaint codes lnk dflt soft))"
  by (simp add: NoBaseException_init_def Let_def)

lemma args_text_init_linked:
  "args_text (NoBaseException_init cl code complaint codes lnk dflt soft) =
   args_text (NoBaseException_init cl code complaint codes None dflt soft)"
  unfolding NoBaseException_init_def Let_def by simp

text \<open>
  C9. \<open>str(exc)\<close> is fixed when \<open>__init__\<close> runs: after any sequence of \<open>addCode\<close>,
  \<open>addMessage\<close>, linked-cause recordings and soft-flag assignments it is still the text
  composed from the codes and messages that \<open>__init__\<close> left in \<open>nos\<close>. It does not
  depend on the linked causes given to the constructor either, so no linked-cause summary
  ever appears in it.
\<close>

theorem str_fixed_at_construction:
  "str_exc (fold mutate ms (NoBaseException_init cl code complaint codes lnk dflt soft)) =
     composeText (nos (NoBaseException_init cl code complaint codes lnk dflt soft)) \<and>
   str_exc (fold mutate ms (NoBaseException_init cl code complaint codes lnk dflt soft)) =
     str_exc (NoBaseException_init cl code complaint codes None dflt soft)"
  using args_text_init [of cl code complaint codes lnk dflt soft]
        args_text_init_linked [of cl code complaint codes lnk dflt soft]
  by (simp add: str_exc_def args_text_fold_mutate)

theorem str_fixed_at_construction_witness:
  "str_exc (fold mutate
              [AddCode 500 (Some ''Server Error''), AddMessage 404 (Some ''again''),
               RecordLinked (Foreign ''KeyError'' ''missing key'' (Some (''app.py'', 12)))]
              (NoBaseException_init ''NoBaseException'' 404 None None None
                 (Some ''Not Found'') None)) =
     ''[404]'' @ CHR 0x0A # ''Not Found''"
  using str_fixed_at_construction
          [of "[AddCode 500 (Some ''Server Error''), AddMessage 404 (Some ''again''),
                RecordLinked (Foreign ''KeyError'' ''missing key'' (Some (''app.py'', 12)))]"
              "''NoBaseException''" 404 None None None "Some ''Not Found''" None]
  by (simp add: value_defs exception_defs)

text \<open>
  The constructor alone, given the two message lists, renders the header and three
  message lines.
\<close>

lemma init_404_500_three_lines:
  "str_exc (NoBaseException_init ''NoBaseException'' 404 None
              (Some [(404, [''Not Found'']), (500, [''Server Error'', ''extra''])])
              None None None) =
     ''[404,500]'' @ CHR 0x0A # ''Not Found'' @ CHR 0x0A # ''Server Error'' @
     CHR 0x0A # ''extra''"
  by (simp add: value_defs exception_defs)

text \<open>
  C8. The builder holds exactly the message lists \<open>["Not Found"]\<close> for 404 and
  \<open>["Server Error", "extra"]\<close> for 500, but \<open>build\<close> hands the first complaint of the
  primary code to the constructor once more, which appends it to the list that already
  holds it: the rendered text is the header \<open>[404,500]\<close> followed by four message
  lines, \<open>Not Found\<close> twice.
\<close>

theorem build_duplicates_primary_complaint:
  "b_codes builder_404_500 = [(404, [''Not Found'']), (500, [''Server Error'', ''extra''])] \<and>
   (case build builder_404_500 of
      Inl err \<Rightarrow> False
    | Inr (exc, b) \<Rightarrow>
        str_exc exc = ''[404,500]'' @ CHR 0x0A # ''Not Found'' @ CHR 0x0A # ''Not Found'' @
                      CHR 0x0A # ''Server Error'' @ CHR 0x0A # ''extra'' \<and>
        complaints exc = [''Not Found'', ''Not Found'', ''Server Error'', ''extra''])"
  by (simp add: builder_404_500_def value_defs exception_defs builder_defs)

section \<open>The dispatcher\<close>

text \<open>
  C10. A call whose only positional argument is an exception object, foreign or one of
  the package's own, does nothing: it returns, and the receiver and the module (registry,
  both pending slots, everything else) are as before, whatever \<open>complaint\<close> and \<open>soften\<close>
  are.
\<close>

theorem exception_argument_noop:
  "handleCall ctx [AExc x] complaint soften m = (Returned, ctx, m)"
  by (simp add: handleCall_def)

section \<open>Steps of the dispatcher\<close>

lemma getRegistryEntry_Module:
  "getRegistryEntry Module c m = (registered_soft m c, registered_msg m c)"
  by (simp add: getRegistryEntry_def registry_get_def registered_soft_def registered_msg_def
        entry_soft_def entry_msg_def Let_def split: option.splits)

lemma registered_unregistered:
  "registry m c = None \<Longrightarrow> registered_soft m c = False"
  "registry m c = None \<Longrightarrow> registered_msg m c = default_msg c"
  by (simp_all add: registered_soft_def registered_msg_def)

lemma single_code_pending:
  "getPending m = Some p \<Longrightarrow>
   handleCall ctx [AInt c] complaint soften m =
     (Returned, ctx,
      setPending (Some (mergeCode c (snd (getRegistryEntry ctx c m)) complaint
                          (fst (getRegistryEntry ctx c m)) p)) m)"
  by (simp add: handleCall_def handleSingleCode_def split: prod.splits)

lemma single_code_fresh_module:
  "getPending m = None \<Longrightarrow>
   handleCall Module [AInt c] complaint soften m =
     (case makeOne c complaint [] m of
        (exc, m1) \<Rightarrow>
          (case handleSoftOrRaise exc (registered_soft m c) soften m1 of
             (out, m') \<Rightarrow> (out, Module, m')))"
  by (simp add: handleCall_def handleSingleCode_def freshException_def getRegistryEntry_Module
           split: prod.splits)

lemma code_message_pending:
  "getPending m = Some p \<Longrightarrow>
   handleCall ctx [AInt c, AStr s] complaint soften m =
     (Returned, ctx,
      setPending (Some (mergeCodeMessage c (snd (getRegistryEntry ctx c m)) s
                          (fst (getRegistryEntry ctx c m)) p)) m)"
  by (simp add: handleCall_def handleCodeMessage_def split: prod.splits)

lemma code_message_fresh_module:
  "getPending m = None \<Longrightarrow>
   handleCall Module [AInt c, AStr s] complaint soften m =
     (case makeOne c (Some s) [] m of
        (exc, m1) \<Rightarrow>
          (case handleSoftOrRaise exc (registered_soft m c) soften m1 of
             (out, m') \<Rightarrow> (out, Module, m')))"
  by (simp add: handleCall_def handleCodeMessage_def freshException_def getRegistryEntry_Module
           split: prod.splits)

lemma code_exception_module:
  "handleCall Module [AInt c, AExc x] complaint soften m =
     (case makeOne c complaint [x] m of
        (exc, m1) \<Rightarrow>
          (case handleSoftOrRaise exc (registered_soft m c) soften m1 of
             (out, m') \<Rightarrow> (out, Module, m')))"
  by (simp add: handleCall_def handleCodeExceptionLink_def getRegistryEntry_Module
           split: prod.splits)

lemma makeOne_fields:
  "registry (snd (makeOne c cm l m)) = registry m"
  "pending_value (snd (makeOne c cm l m)) = pending_value m"
  "thread_local_pending (snd (makeOne c cm l m)) = thread_local_pending m"
  "hideTraceback (snd (makeOne c cm l m)) = hideTraceback m"
  "stdout (snd (makeOne c cm l m)) = stdout m"
  by (simp_all add: makeOne_def Let_def split: prod.splits)

lemma makeOne_unregistered:
  "registry m c = None \<Longrightarrow>
   makeOne c cm [] m =
     (NoBaseException_init ''NoBaseException'' c cm None (Some []) (Some (default_msg c))
        (Some [(c, False)]), m)"
  by (simp add: makeOne_def registry_get_def Let_def)

lemma makeOne_no_links:
  "registry m c = Some (nm, d, [], sf) \<Longrightarrow>
   fst (makeOne c cm [] m) =
     NoBaseException_init nm c cm None (Some []) (Some d) (Some [(c, sf)])"
  by (simp add: makeOne_def registry_get_def Let_def)

lemma setPending_fields:
  "registry (setPending x m) = registry m"
  "thread_local_pending (setPending x m) = x"
  "getPending (setPending (Some e) m) = Some e"
  by (simp_all add: setPending_def getPending_def)

lemma stash_pending: "getPending m = Some p \<Longrightarrow> stash caught m = Some p"
  by (simp add: getPending_def stash_def split: option.splits)

lemma nos_mergeCode_present:
  "dict_has c (nos p) \<Longrightarrow> nos (mergeCode c d None sf p) = nos p"
  by (simp add: mergeCode_def addCode_def truthy_def Let_def)

lemma nos_init_plain:
  "nos (NoBaseException_init cl c None None l (Some d) s) = [(c, [str_or (Some d) (default_msg c)])]"
  by (simp add: NoBaseException_init_def dict_has_def truthy_def Let_def)

lemma nos_init_fresh:
  "nos (NoBaseException_init cl c cm None l (Some d) s) =
     [(c, str_or (Some d) (default_msg c) # complaint_list cm)]"
  by (simp add: NoBaseException_init_def dict_has_def dict_get_def complaint_list_def Let_def)

lemma nos_init_bare:
  "nos (NoBaseException_init cl c cm None None None None) =
     [(c, default_msg c # complaint_list cm)]"
  by (simp add: NoBaseException_init_def dict_has_def dict_get_def complaint_list_def str_or_def
        truthy_def Let_def)

lemma nos_recordLinked: "nos (recordLinkedException x e) = nos e"
  by (simp add: recordLinkedException_def Let_def)

lemma nos_fold_recordLinked: "nos (fold recordLinkedException xs e) = nos e"
  by (induction xs arbitrary: e) (simp_all add: nos_recordLinked)

lemma dict_set_keeps_head:
  "\<not> dict_has k (kv # r) \<Longrightarrow> dict_set k v (kv # r) = kv # dict_set k v r"
  by (cases kv) (auto simp: dict_has_def)

lemma nos_propagate_head:
  "nos e = kv # r \<Longrightarrow> \<exists>r'. nos (propagate m c e) = kv # r'"
  by (simp add: propagate_def addCode_def Let_def dict_set_keeps_head)

lemma nos_fold_propagate_head:
  "nos e = kv # r \<Longrightarrow> \<exists>r'. nos (fold (propagate m) cs e) = kv # r'"
proof (induction cs arbitrary: e r)
  case Nil
  then show ?case by simp
next
  case (Cons c cs)
  from nos_propagate_head [OF Cons.prems, of m c]
  obtain r1 where "nos (propagate m c e) = kv # r1" by blast
  from Cons.IH [OF this] show ?case by simp
qed

lemma registry_get_default_msg:
  "entry_msg (registry_get m c (nm, default_msg c, [], False)) = registered_msg m c"
  by (simp add: registry_get_def registered_msg_def entry_msg_def split: option.splits)

lemma makeOne_head:
  "\<exists>rest. nos (fst (makeOne c cm l m)) = (c, first_message m c # complaint_list cm) # rest"
proof -
  obtain nm d lc sf where g: "registry_get m c (''NoBaseException'', default_msg c, [], False) = (nm, d, lc, sf)"
    by (metis prod_cases4)
  have d: "d = registered_msg m c"
    using registry_get_default_msg [of m c "''NoBaseException''"] g by (simp add: entry_msg_def)
  have "nos (fold recordLinkedException l
              (NoBaseException_init nm c cm None (Some []) (Some d) (Some [(c, sf)]))) =
          (c, first_message m c # complaint_list cm) # []"
    by (simp add: nos_fold_recordLinked nos_init_fresh first_message_def d)
  from nos_fold_propagate_head [OF this, of m lc]
  show ?thesis using g by (simp add: makeOne_def Let_def)
qed

lemma str_or_default: "str_or (Some (default_msg c)) (default_msg c) = default_msg c"
  by (simp add: str_or_def)

lemma default_msg_1001: "default_msg 1001 = ''Error 1001''"
  by (simp add: value_defs)

lemma default_msg_small:
  "default_msg 1 = ''Error 1''" "default_msg 2 = ''Error 2''" "default_msg 5 = ''Error 5''"
  by (simp_all add: value_defs)

lemma empty_call_pending:
  "getPending m = Some p \<Longrightarrow>
   handleCall ctx [] complaint soften m =
     (if hideTraceback m then (SystemExit 1, ctx, m\<lparr> stdout := stdout m @ [str_exc p] \<rparr>)
      else (Raised p, ctx, m))"
  by (simp add: handleCall_def handleEmptyCall_def raze_def)

lemma empty_call_module:
  "getPending m = None \<Longrightarrow>
   handleCall Module [] complaint soften m =
     (if hideTraceback m
      then (SystemExit 1, Module,
            (snd (makeOne 0 None [] m))\<lparr> stdout := stdout m @ [str_exc (fst (makeOne 0 None [] m))] \<rparr>)
      else (Raised (fst (makeOne 0 None [] m)), Module, snd (makeOne 0 None [] m)))"
proof -
  assume np: "getPending m = None"
  obtain e m1 where mk: "makeOne 0 None [] m = (e, m1)" by (cases "makeOne 0 None [] m")
  have f: "hideTraceback m1 = hideTraceback m" "stdout m1 = stdout m"
    using makeOne_fields(4,5) [of 0 None "[]" m] mk by simp_all
  have "handleEmptyCall Module m =
          (if hideTraceback m then (SystemExit 1, Module, m1\<lparr> stdout := stdout m @ [str_exc e] \<rparr>)
           else (Raised e, Module, m1))"
    using np mk f by (simp add: handleEmptyCall_def raze_def)
  then show ?thesis using mk by (simp add: handleCall_def)
qed

lemma empty_call_instance:
  "getPending m = None \<Longrightarrow>
   handleCall (Instance r) [] complaint soften m =
     (if hideTraceback m then (SystemExit 1, Instance r, m\<lparr> stdout := stdout m @ [str_exc r] \<rparr>)
      else (Raised r, Instance r, m))"
  by (simp add: handleCall_def handleEmptyCall_def raze_def)

section \<open>Soft accumulation\<close>

lemma likey_new:
  "registry m c = None \<Longrightarrow>
   registry (likey c [] None True m) c = Some (''Error'' @ str_int c, default_msg c, [], True) \<and>
   getPending (likey c [] None True m) = getPending m"
  by (simp add: likey_def getPending_def Let_def split: option.splits)

lemma repeat_code_invariant:
  assumes reg: "registry m c = Some (nm, default_msg c, [], True)"
      and np: "getPending m = None"
  shows "registry (repeat_code n c m) = registry m \<and>
         (case n of
            0 \<Rightarrow> getPending (repeat_code n c m) = None
          | Suc k \<Rightarrow> (\<exists>p. getPending (repeat_code n c m) = Some p \<and>
                           nos p = [(c, [default_msg c])]))"
proof (induction n)
  case 0
  show ?case using np by simp
next
  case (Suc n)
  let ?m = "repeat_code n c m"
  have r: "registry ?m = registry m" using Suc by simp
  have soft: "registered_soft ?m c" using r reg by (simp add: registered_soft_def entry_soft_def)
  show ?case
  proof (cases n)
    case 0
    then have np': "getPending ?m = None" using Suc by simp
    have step: "handleCall Module [AInt c] None False ?m =
                  (Returned, Module, setPending (Some (fst (makeOne c None [] ?m))) (snd (makeOne c None [] ?m)))"
      using single_code_fresh_module [OF np', of c None False] soft
      by (simp add: handleSoftOrRaise_def split: prod.splits)
    have "nos (fst (makeOne c None [] ?m)) = [(c, [default_msg c])]"
      using makeOne_no_links [of ?m c nm "default_msg c" True None] r reg
      by (simp add: nos_init_plain str_or_default)
    then show ?thesis using step r
      by (simp add: call_on_module_def setPending_fields makeOne_fields)
  next
    case (Suc k)
    then obtain p where p: "getPending ?m = Some p" "nos p = [(c, [default_msg c])]"
      using Suc.IH by auto
    have has: "dict_has c (nos p)" using p(2) by (simp add: dict_has_def)
    show ?thesis
      using single_code_pending [OF p(1), of Module c None False] r p(2)
            nos_mergeCode_present [OF has]
      by (simp add: call_on_module_def setPending_fields)
  qed
qed

lemma repeat_code_returns:
  assumes reg: "registry m c = Some (nm, default_msg c, [], True)"
      and np: "getPending m = None"
  shows "call_outcome [AInt c] None False (repeat_code n c m) = Returned"
proof (cases n)
  case 0
  have r: "registered_soft m c" using reg by (simp add: registered_soft_def entry_soft_def)
  show ?thesis using single_code_fresh_module [OF np, of c None False] r 0
    by (simp add: call_outcome_def handleSoftOrRaise_def split: prod.splits)
next
  case (Suc k)
  then obtain p where "getPending (repeat_code n c m) = Some p"
    using repeat_code_invariant [OF reg np, of n] by auto
  then show ?thesis using single_code_pending [of "repeat_code n c m" p Module c None False]
    by (simp add: call_outcome_def)
qed

lemma three_calls_1001:
  "call_outcome [AInt 1001] None False (repeat_code 2 1001 module_1001) = Returned \<and>
   module_complaints None (repeat_code 3 1001 module_1001) = [''Error 1001'']"
proof -
  let ?m0 = "likey 1001 [] None True NoModule_init"
  have h1: "registry NoModule_init 1001 = None" by (simp add: NoModule_init_def)
  have h2: "getPending NoModule_init = None" by (simp add: NoModule_init_def getPending_def)
  have reg: "registry ?m0 1001 = Some (''Error'' @ str_int 1001, default_msg 1001, [], True)"
   and np: "getPending ?m0 = None"
    using likey_new [OF h1] h2 by simp_all
  obtain p where p: "getPending (repeat_code 3 1001 ?m0) = Some p" "nos p = [(1001, [default_msg 1001])]"
    using repeat_code_invariant [OF reg np, of 3] by (auto simp: numeral_3_eq_3)
  show ?thesis
    using stash_pending [OF p(1), of None] p(2) repeat_code_returns [OF reg np, of 2]
    by (simp add: module_1001_def module_complaints_def dict_values_def default_msg_1001)
qed

text \<open>
  C2, as the code has it. Let \<open>c\<close> be new to the registry and registered soft with no
  message of its own and no linked codes, and let nothing be pending. Then every one
  of any number of successive calls \<open>no(c)\<close> returns without raising, and after one
  call or more the pending exception has the single key \<open>c\<close> with the single message
  \<open>Error {c}\<close>: \<open>addCode\<close> leaves a code that is already present alone, so a repeated
  call without a complaint appends nothing.
\<close>

theorem repeated_soft_code_keeps_one_message:
  assumes "registry m c = None" and "getPending m = None"
  shows "call_outcome [AInt c] None False (repeat_code n c (likey c [] None True m)) = Returned \<and>
         module_nos caught (repeat_code (Suc n) c (likey c [] None True m)) =
           [(c, [default_msg c])] \<and>
         module_complaints caught (repeat_code (Suc n) c (likey c [] None True m)) =
           [default_msg c]"
proof -
  let ?m0 = "likey c [] None True m"
  have reg: "registry ?m0 c = Some (''Error'' @ str_int c, default_msg c, [], True)"
   and np: "getPending ?m0 = None"
    using likey_new [OF assms(1)] assms(2) by simp_all
  obtain p where p: "getPending (repeat_code (Suc n) c ?m0) = Some p" "nos p = [(c, [default_msg c])]"
    using repeat_code_invariant [OF reg np, of "Suc n"] by auto
  show ?thesis
    using repeat_code_returns [OF reg np, of n] stash_pending [OF p(1), of caught] p(2)
    by (simp add: module_nos_def module_complaints_def dict_values_def)
qed

theorem repeated_soft_code_keeps_one_message_witness:
  "registry NoModule_init 1001 = None \<and> getPending NoModule_init = None \<and>
   call_outcome [AInt 1001] None False (repeat_code 2 1001 (likey 1001 [] None True NoModule_init)) = Returned \<and>
   module_complaints None (repeat_code 3 1001 (likey 1001 [] None True NoModule_init)) = [''Error 1001'']"
proof -
  have h1: "registry NoModule_init 1001 = None" by (simp add: NoModule_init_def)
  have h2: "getPending NoModule_init = None" by (simp add: NoModule_init_def getPending_def)
  show ?thesis
    using h1 h2 repeated_soft_code_keeps_one_message [OF h1 h2, of 2 None]
    by (simp add: default_msg_1001 numeral_3_eq_3)
qed

text \<open>
  C2 as stated fails: after three calls with code 1001 the messages are
  \<open>["Error 1001"]\<close>, not three copies of it.
\<close>

theorem three_soft_calls_counterexample:
  "call_outcome [AInt 1001] None False (repeat_code 2 1001 module_1001) = Returned \<and>
   module_complaints None (repeat_code 3 1001 module_1001) = [''Error 1001''] \<and>
   module_complaints None (repeat_code 3 1001 module_1001) \<noteq>
     [''Error 1001'', ''Error 1001'', ''Error 1001'']"
  using three_calls_1001 by simp

section \<open>The merge into a pending exception\<close>

lemma call_on_module_registry_pending:
  "getPending m = Some p \<Longrightarrow> registry (call_on_module [AInt c] cm so m) = registry m"
  using single_code_pending [of m p Module c cm so]
  by (simp add: call_on_module_def setPending_def)

lemma pending_scenario_1_state:
  "registry pending_scenario_1 = Map.empty \<and>
   getPending pending_scenario_1 =
     Some \<lparr> cls = ''NoBaseException'', nos = [(1, [''Error 1''])], softCodes = [(1, False)],
            linked = [], nos_defaultdict = None, linked_defaultdict = None,
            args_text = composeText [(1, [''Error 1''])] \<rparr>"
proof -
  have np: "getPending NoModule_init = None" by (simp add: NoModule_init_def getPending_def)
  have r: "registry NoModule_init 1 = None" by (simp add: NoModule_init_def)
  have e: "NoBaseException_init ''NoBaseException'' 1 None None (Some []) (Some ''Error 1'')
             (Some [(1, False)]) =
           \<lparr> cls = ''NoBaseException'', nos = [(1, [''Error 1''])], softCodes = [(1, False)],
             linked = [], nos_defaultdict = None, linked_defaultdict = None,
             args_text = composeText [(1, [''Error 1''])] \<rparr>"
    by (simp add: NoBaseException_init_def dict_has_def truthy_def str_or_def Let_def)
  show ?thesis
    using single_code_fresh_module [OF np, of 1 None True] makeOne_unregistered [OF r, of None] e
    by (simp add: pending_scenario_1_def call_on_module_def handleSoftOrRaise_def
          setPending_def getPending_def default_msg_small NoModule_init_def)
qed

lemma pending_scenario_2_state:
  "registry pending_scenario_2 = Map.empty \<and>
   getPending pending_scenario_2 =
     Some \<lparr> cls = ''NoBaseException'', nos = [(1, [''Error 1'', ''a''])],
            softCodes = [(1, False)], linked = [],
            nos_defaultdict = Some [(1, [''Error 1'', ''a''])], linked_defaultdict = None,
            args_text = composeText [(1, [''Error 1''])] \<rparr>"
proof -
  let ?e1 = "\<lparr> cls = ''NoBaseException'', nos = [(1, [''Error 1''])], softCodes = [(1, False)],
             linked = [], nos_defaultdict = None, linked_defaultdict = None,
             args_text = composeText [(1, [''Error 1''])] \<rparr>"
  have p: "getPending pending_scenario_1 = Some ?e1" and r: "registry pending_scenario_1 1 = None"
    using pending_scenario_1_state by simp_all
  have mg: "mergeCode 1 ''Error 1'' (Some ''a'') False ?e1 =
     \<lparr> cls = ''NoBaseException'', nos = [(1, [''Error 1'', ''a''])],
            softCodes = [(1, False)], linked = [],
            nos_defaultdict = Some [(1, [''Error 1'', ''a''])], linked_defaultdict = None,
            args_text = composeText [(1, [''Error 1''])] \<rparr>"
    by (simp add: mergeCode_def addCode_def addMessage_def dict_has_def dict_get_def truthy_def Let_def)
  show ?thesis
    using single_code_pending [OF p, of Module 1 "Some ''a''" False] r mg
          call_on_module_registry_pending [OF p, of 1 "Some ''a''" False] pending_scenario_1_state
    by (simp add: pending_scenario_2_def call_on_module_def getRegistryEntry_Module
          registered_unregistered default_msg_small setPending_fields)
qed

text \<open>
  With a pending exception the single-code call returns, whatever the soft flag and
  \<open>soften\<close> are and whoever the receiver is (\<open>single_code_pending\<close>), and on a pending
  exception whose \<open>addMessage\<close> cache was never filled the merged messages are those of
  the specification.
\<close>

lemma mergeCode_without_cache:
  "nos_defaultdict p = None \<Longrightarrow>
   nos (mergeCode c d complaint sf p) =
     spec_merge_messages c (str_or (Some d) (default_msg c)) complaint (nos p)"
  by (simp add: mergeCode_def spec_merge_messages_def addCode_def addMessage_def Let_def)

text \<open>
  C3. After \<open>no(1, soften=True)\<close> and \<open>no(1, complaint="a")\<close> the pending exception holds
  \<open>{1: ["Error 1", "a"]}\<close>, and \<open>addMessage\<close> has filled its cache with a copy of that
  dictionary. The call \<open>no(2, complaint="b")\<close> returns without raising, but the merged
  state holds \<open>{1: ["Error 1", "a"], 2: ["b"]}\<close>: \<open>addCode\<close> put \<open>"Error 2"\<close> into \<open>nos\<close>
  only, and \<open>addMessage\<close> rebuilt \<open>nos\<close> from the cache, which never saw code 2. The merge
  of the specification gives \<open>2: ["Error 2", "b"]\<close>.
\<close>

theorem pending_merge_drops_default_message:
  "module_nos None pending_scenario_2 = [(1, [''Error 1'', ''a''])] \<and>
   call_outcome [AInt 2] (Some ''b'') False pending_scenario_2 = Returned \<and>
   module_nos None (call_on_module [AInt 2] (Some ''b'') False pending_scenario_2) =
     [(1, [''Error 1'', ''a'']), (2, [''b''])] \<and>
   spec_merge_messages 2 ''Error 2'' (Some ''b'') (module_nos None pending_scenario_2) =
     [(1, [''Error 1'', ''a'']), (2, [''Error 2'', ''b''])]"
proof -
  let ?e2 = "\<lparr> cls = ''NoBaseException'', nos = [(1, [''Error 1'', ''a''])],
            softCodes = [(1, False)], linked = [],
            nos_defaultdict = Some [(1, [''Error 1'', ''a''])], linked_defaultdict = None,
            args_text = composeText [(1, [''Error 1''])] \<rparr>"
  have p: "getPending pending_scenario_2 = Some ?e2" and r: "registry pending_scenario_2 2 = None"
    using pending_scenario_2_state by simp_all
  have mg: "nos (mergeCode 2 ''Error 2'' (Some ''b'') False ?e2) =
              [(1, [''Error 1'', ''a'']), (2, [''b''])]"
    by (simp add: mergeCode_def addCode_def addMessage_def dict_has_def dict_get_def truthy_def Let_def)
  have a: "module_nos None pending_scenario_2 = [(1, [''Error 1'', ''a''])]"
    using stash_pending [OF p, of None] by (simp add: module_nos_def)
  have b: "handleCall Module [AInt 2] (Some ''b'') False pending_scenario_2 =
             (Returned, Module,
              setPending (Some (mergeCode 2 ''Error 2'' (Some ''b'') False ?e2)) pending_scenario_2)"
    using single_code_pending [OF p, of Module 2 "Some ''b''" False] r
    by (simp add: getRegistryEntry_Module registered_unregistered default_msg_small)
  have c: "module_nos None (call_on_module [AInt 2] (Some ''b'') False pending_scenario_2) =
     [(1, [''Error 1'', ''a'']), (2, [''b''])]"
    using b mg by (simp add: call_on_module_def module_nos_def stash_def setPending_def)
  have d: "spec_merge_messages 2 ''Error 2'' (Some ''b'') [(1, [''Error 1'', ''a''])] =
     [(1, [''Error 1'', ''a'']), (2, [''Error 2'', ''b''])]"
    by (simp add: spec_merge_messages_def dict_has_def dict_get_def truthy_def Let_def)
  show ?thesis using a b c d by (simp add: call_outcome_def)
qed

section \<open>The empty call\<close>

lemma exc_5_value:
  "exc_5 = \<lparr> cls = ''NoBaseException'', nos = [(5, [''Error 5''])], softCodes = [], linked = [],
             nos_defaultdict = None, linked_defaultdict = None,
             args_text = composeText [(5, [''Error 5''])] \<rparr>"
  by (simp add: exc_5_def NoBaseException_init_def dict_has_def truthy_def str_or_def
        default_msg_small Let_def)

lemma getPending_init: "getPending NoModule_init = None"
  by (simp add: NoModule_init_def getPending_def)

lemma makeOne_0_init:
  "makeOne 0 None [] NoModule_init = (unregistered_exc 0 None, NoModule_init)"
  using makeOne_unregistered [of NoModule_init 0 None]
  by (simp add: NoModule_init_def unregistered_exc_def NoBaseException_init_def dict_has_def
        truthy_def str_or_def complaint_list_def Let_def)

text \<open>
  C4, as the code has it. With a pending exception \<open>p\<close> the empty call raises \<open>p\<close> (or,
  when tracebacks are hidden, prints its text and exits with status 1) and leaves the
  module as it was, so the next empty call raises \<open>p\<close> again; \<open>dice\<close> empties both
  pending slots. With nothing pending, the empty call on the module raises the
  exception that \<open>_makeOne\<close> builds for code 0, whose first key is 0, while the empty call
  on an exception instance raises that instance itself.
\<close>

theorem empty_call_behaviour:
  "(getPending m = Some p \<longrightarrow>
      handleCall ctx [] complaint soften m =
        (if hideTraceback m then (SystemExit 1, ctx, m\<lparr> stdout := stdout m @ [str_exc p] \<rparr>)
         else (Raised p, ctx, m)) \<and>
      (\<not> hideTraceback m \<longrightarrow>
         handleCall ctx [] complaint' soften' (snd (snd (handleCall ctx [] complaint soften m))) =
           (Raised p, ctx, m))) \<and>
   getPending (dice m) = None \<and>
   (getPending m = None \<longrightarrow>
      handleCall Module [] complaint soften m =
        (if hideTraceback m
         then (SystemExit 1, Module,
               (snd (makeOne 0 None [] m))
                 \<lparr> stdout := stdout m @ [str_exc (fst (makeOne 0 None [] m))] \<rparr>)
         else (Raised (fst (makeOne 0 None [] m)), Module, snd (makeOne 0 None [] m))) \<and>
      (\<exists>rest. nos (fst (makeOne 0 None [] m)) =
                 (0, first_message m 0 # []) # rest) \<and>
      handleCall (Instance r) [] complaint soften m =
        (if hideTraceback m
         then (SystemExit 1, Instance r, m\<lparr> stdout := stdout m @ [str_exc r] \<rparr>)
         else (Raised r, Instance r, m)))"
proof -
  have a: "getPending m = Some p \<Longrightarrow> \<not> hideTraceback m \<Longrightarrow>
        handleCall ctx [] complaint' soften' (snd (snd (handleCall ctx [] complaint soften m))) =
           (Raised p, ctx, m)"
    using empty_call_pending [of m p ctx] by simp
  have b: "getPending (dice m) = None" by (simp add: dice_def getPending_def)
  have c: "\<exists>rest. nos (fst (makeOne 0 None [] m)) = (0, first_message m 0 # []) # rest"
    using makeOne_head [of 0 None "[]" m] by (simp add: complaint_list_def truthy_def)
  show ?thesis
    using a b c empty_call_pending [of m p ctx complaint soften]
          empty_call_module [of m complaint soften] empty_call_instance [of m r complaint soften]
    by blast
qed

theorem empty_call_behaviour_witness:
  "getPending pending_scenario_1 = Some (unregistered_exc 1 None) \<and>
   \<not> hideTraceback pending_scenario_1 \<and>
   handleCall Module [] None False pending_scenario_1 =
     (Raised (unregistered_exc 1 None), Module, pending_scenario_1) \<and>
   handleCall Module [] None False
     (snd (snd (handleCall Module [] None False pending_scenario_1))) =
     (Raised (unregistered_exc 1 None), Module, pending_scenario_1) \<and>
   getPending (dice pending_scenario_1) = None \<and>
   getPending NoModule_init = None \<and>
   handleCall Module [] None False NoModule_init =
     (Raised (unregistered_exc 0 None), Module, NoModule_init) \<and>
   dict_keys (nos (unregistered_exc 0 None)) = [0] \<and>
   handleCall (Instance exc_5) [] None False NoModule_init =
     (Raised exc_5, Instance exc_5, NoModule_init)"
proof -
  have p: "getPending pending_scenario_1 = Some (unregistered_exc 1 None)"
    using pending_scenario_1_state
    by (simp add: unregistered_exc_def complaint_list_def truthy_def default_msg_small)
  have h: "\<not> hideTraceback pending_scenario_1"
    using single_code_fresh_module [OF getPending_init, of 1 None True]
          makeOne_fields(4) [of 1 None "[]" NoModule_init]
    by (simp add: pending_scenario_1_def call_on_module_def handleSoftOrRaise_def setPending_def
          NoModule_init_def split: prod.splits)
  have h0: "\<not> hideTraceback NoModule_init" by (simp add: NoModule_init_def)
  show ?thesis
    using p h h0 getPending_init makeOne_0_init
      empty_call_behaviour [of pending_scenario_1 "unregistered_exc 1 None" Module None False
                               None False exc_5]
      empty_call_behaviour [of NoModule_init "unregistered_exc 1 None" Module None False
                               None False exc_5]
    by (simp add: unregistered_exc_def dict_keys_def)
qed

text \<open>
  C4 as stated fails for an instance receiver: with nothing pending, the empty call on
  \<open>NoBaseException(5)\<close> raises that exception, whose only code is 5, and no exception
  with code 0 is built.
\<close>

theorem empty_call_on_instance_counterexample:
  "getPending NoModule_init = None \<and>
   fst (handleCall (Instance exc_5) [] None False NoModule_init) = Raised exc_5 \<and>
   dict_keys (nos exc_5) = [5]"
  using empty_call_instance [OF getPending_init, of exc_5 None False] getPending_init
  by (simp add: NoModule_init_def exc_5_value dict_keys_def)

section \<open>Unregistered codes\<close>

lemma unregistered_exc_init:
  "NoBaseException_init ''NoBaseException'' c cm None (Some []) (Some (default_msg c))
     (Some [(c, False)]) = unregistered_exc c cm"
  by (simp add: NoBaseException_init_def unregistered_exc_def dict_has_def dict_get_def
        complaint_list_def str_or_def truthy_def Let_def)

lemma handleSoftOrRaise_policy:
  "(case handleSoftOrRaise exc sf so m of (out, m') \<Rightarrow> (out, Module, m')) =
     raise_or_stash (sf \<or> so) (exc, m)"
  by (simp add: handleSoftOrRaise_def raise_or_stash_def raze_def setPending_def)

lemma soften_call_sets_pending:
  "getPending m = None \<Longrightarrow>
   getPending (call_on_module [AInt c] cm True m) = Some (fst (makeOne c cm [] m)) \<and>
   registry (call_on_module [AInt c] cm True m) = registry m \<and>
   call_outcome [AInt c] cm True m = Returned"
  using single_code_fresh_module [of m c cm True] makeOne_fields(1) [of c cm "[]" m]
  by (simp add: call_on_module_def call_outcome_def handleSoftOrRaise_def setPending_def
        getPending_def split: prod.splits)

text \<open>
  C6, as the code has it. For a code \<open>c\<close> that is not in the registry the lookup never
  fails: it gives the soft flag \<open>False\<close> and the message \<open>Error {c}\<close>. When nothing is
  pending and the caller does not pass \<open>soften\<close>, the single-code call on the module
  builds a fresh exception whose messages for \<open>c\<close> are \<open>Error {c}\<close> followed by the
  complaint, if one is given (so exactly \<open>["Error {c}"]\<close> without a complaint), and
  raises it; with tracebacks hidden it prints the text and exits with status 1. Nothing
  is stored.
\<close>

theorem unregistered_code_is_hard:
  assumes "registry m c = None"
  shows "getRegistryEntry Module c m = (False, default_msg c) \<and>
         (getPending m = None \<longrightarrow>
            handleCall Module [AInt c] complaint False m =
              (if hideTraceback m
               then (SystemExit 1, Module,
                     m\<lparr> stdout := stdout m @ [str_exc (unregistered_exc c complaint)] \<rparr>)
               else (Raised (unregistered_exc c complaint), Module, m))) \<and>
         nos (unregistered_exc c None) = [(c, [default_msg c])] \<and>
         nos (unregistered_exc c complaint) = [(c, default_msg c # complaint_list complaint)]"
proof -
  have a: "getRegistryEntry Module c m = (False, default_msg c)"
    using assms by (simp add: getRegistryEntry_Module registered_unregistered)
  have b: "getPending m = None \<Longrightarrow>
           handleCall Module [AInt c] complaint False m =
              (if hideTraceback m
               then (SystemExit 1, Module,
                     m\<lparr> stdout := stdout m @ [str_exc (unregistered_exc c complaint)] \<rparr>)
               else (Raised (unregistered_exc c complaint), Module, m))"
    using single_code_fresh_module [of m c complaint False]
          makeOne_unregistered [OF assms, of complaint] registered_unregistered(1) [OF assms]
    by (simp add: unregistered_exc_init handleSoftOrRaise_def raze_def)
  have c: "nos (unregistered_exc c None) = [(c, [default_msg c])]"
    by (simp add: unregistered_exc_def complaint_list_def truthy_def)
  have d: "nos (unregistered_exc c complaint) = [(c, default_msg c # complaint_list complaint)]"
    by (simp add: unregistered_exc_def)
  show ?thesis using a b c d by blast
qed

lemma default_msg_99: "default_msg 99 = ''Error 99''"
  by (simp add: value_defs)

theorem unregistered_code_is_hard_witness:
  "registry NoModule_init 99 = None \<and> getPending NoModule_init = None \<and>
   getRegistryEntry Module 99 NoModule_init = (False, ''Error 99'') \<and>
   handleCall Module [AInt 99] None False NoModule_init =
     (Raised (unregistered_exc 99 None), Module, NoModule_init) \<and>
   nos (unregistered_exc 99 None) = [(99, [''Error 99''])]"
proof -
  have r: "registry NoModule_init 99 = None" by (simp add: NoModule_init_def)
  have h: "\<not> hideTraceback NoModule_init" by (simp add: NoModule_init_def)
  show ?thesis
    using r h getPending_init unregistered_code_is_hard [OF r, of None]
    by (simp add: default_msg_99)
qed

text \<open>
  C6 as stated fails: the single-code call with the unregistered code 99 returns
  without raising when an exception is pending (the code is merged into it, no fresh
  exception is built), and also when the caller passes \<open>soften=True\<close>.
\<close>

theorem unregistered_code_counterexample:
  "registry pending_scenario_1 99 = None \<and>
   call_outcome [AInt 99] None False pending_scenario_1 = Returned \<and>
   registry NoModule_init 99 = None \<and> getPending NoModule_init = None \<and>
   call_outcome [AInt 99] None True NoModule_init = Returned"
proof -
  have p: "getPending pending_scenario_1 = Some (unregistered_exc 1 None)"
    using pending_scenario_1_state
    by (simp add: unregistered_exc_def complaint_list_def truthy_def default_msg_small)
  have a: "call_outcome [AInt 99] None False pending_scenario_1 = Returned"
    using single_code_pending [OF p, of Module 99 None False] by (simp add: call_outcome_def)
  have b: "call_outcome [AInt 99] None True NoModule_init = Returned"
    using soften_call_sets_pending [OF getPending_init, of 99 None] by simp
  show ?thesis using a b pending_scenario_1_state getPending_init
    by (simp add: NoModule_init_def)
qed

section \<open>The code list\<close>

lemma propagate_registry:
  "registry m' = registry m \<Longrightarrow> propagate m' = propagate m"
  by (rule ext, rule ext) (simp add: propagate_def registry_get_def)

lemma makeOne_exc_registry:
  "registry m' = registry m \<Longrightarrow> fst (makeOne c cm l m') = fst (makeOne c cm l m)"
  using propagate_registry [of m' m]
  by (simp add: makeOne_def registry_get_def Let_def split: prod.splits option.splits)

lemma makeAll_fields:
  "registry (snd (makeAll cs cm m)) = registry m \<and>
   pending_value (snd (makeAll cs cm m)) = pending_value m \<and>
   thread_local_pending (snd (makeAll cs cm m)) = thread_local_pending m \<and>
   hideTraceback (snd (makeAll cs cm m)) = hideTraceback m \<and>
   stdout (snd (makeAll cs cm m)) = stdout m"
proof (induction cs arbitrary: m)
  case Nil
  show ?case by simp
next
  case (Cons c cs)
  obtain e m1 where mk: "makeOne c cm [] m = (e, m1)" by (cases "makeOne c cm [] m")
  have f: "registry m1 = registry m" "pending_value m1 = pending_value m"
          "thread_local_pending m1 = thread_local_pending m"
          "hideTraceback m1 = hideTraceback m" "stdout m1 = stdout m"
    using makeOne_fields [of c cm "[]" m] mk by simp_all
  obtain es m2 where ma: "makeAll cs cm m1 = (es, m2)" by (cases "makeAll cs cm m1")
  show ?case using Cons.IH [of m1] mk f ma by simp
qed

lemma makeAll_exceptions:
  "fst (makeAll cs cm m) = map (\<lambda>c. fst (makeOne c cm [] m)) cs"
proof (induction cs arbitrary: m)
  case Nil
  show ?case by simp
next
  case (Cons c cs)
  obtain e m1 where mk: "makeOne c cm [] m = (e, m1)" by (cases "makeOne c cm [] m")
  have r: "registry m1 = registry m" using makeOne_fields(1) [of c cm "[]" m] mk by simp
  have "fst (makeAll cs cm m1) = map (\<lambda>c. fst (makeOne c cm [] m)) cs"
    using Cons.IH [of m1] makeOne_exc_registry [OF r] by simp
  moreover obtain es m2 where "makeAll cs cm m1 = (es, m2)" by (cases "makeAll cs cm m1")
  ultimately show ?case using mk by simp
qed

lemma code_list_module:
  "handleCall Module [AList codes] complaint soften m =
     (raiseGroup (map (\<lambda>c. fst (makeOne c complaint [] m)) codes), Module,
      snd (makeAll codes complaint m))"
proof -
  obtain es m2 where ma: "makeAll codes complaint m = (es, m2)"
    by (cases "makeAll codes complaint m")
  show ?thesis using makeAll_exceptions [of codes complaint m] ma
    by (simp add: handleCall_def handleExceptionGroup_def)
qed

lemma code_list_instance:
  "\<not> hideTraceback m \<Longrightarrow>
   handleCall (Instance r) [AList codes] complaint soften m =
     (raiseGroup (map (\<lambda>c. NoBaseException_init (cls r) c complaint None None None None) codes),
      Instance r, m)"
  by (simp add: handleCall_def handleExceptionGroup_def Let_def)

text \<open>
  C7, as the code has it. For a non-empty list of codes the call on the module raises an
  \<open>ExceptionGroup\<close> of as many exceptions as there are codes, in the order of the list,
  the one for code \<open>c\<close> being what \<open>_makeOne\<close> builds for \<open>c\<close> and the complaint: its first
  key is \<open>c\<close>, with the registered (or default) message followed by the complaint, if
  any. Both pending slots are as before, whatever the soft flags and \<open>soften\<close> are. On an
  exception instance, with tracebacks not hidden, the group holds one new exception of
  the receiver's class per code, with the default message and the complaint, and the
  module is unchanged.
\<close>

theorem code_list_raises_group:
  assumes "codes \<noteq> []"
  shows "handleCall Module [AList codes] complaint soften m =
           (RaisedGroup ''Multiple errors'' (map (\<lambda>c. fst (makeOne c complaint [] m)) codes),
            Module, snd (makeAll codes complaint m)) \<and>
         length (map (\<lambda>c. fst (makeOne c complaint [] m)) codes) = length codes \<and>
         (\<forall>c. take 1 (nos (fst (makeOne c complaint [] m))) =
                [(c, first_message m c # complaint_list complaint)]) \<and>
         thread_local_pending (snd (makeAll codes complaint m)) = thread_local_pending m \<and>
         pending_value (snd (makeAll codes complaint m)) = pending_value m \<and>
         (\<not> hideTraceback m \<longrightarrow>
            handleCall (Instance r) [AList codes] complaint soften m =
              (RaisedGroup ''Multiple errors''
                 (map (\<lambda>c. NoBaseException_init (cls r) c complaint None None None None) codes),
               Instance r, m)) \<and>
         (\<forall>c. nos (NoBaseException_init (cls r) c complaint None None None None) =
                [(c, default_msg c # complaint_list complaint)])"
proof -
  have a: "handleCall Module [AList codes] complaint soften m =
           (RaisedGroup ''Multiple errors'' (map (\<lambda>c. fst (makeOne c complaint [] m)) codes),
            Module, snd (makeAll codes complaint m))"
    using assms code_list_module [of codes complaint soften m] by (simp add: raiseGroup_def)
  have b: "\<forall>c. take 1 (nos (fst (makeOne c complaint [] m))) =
                [(c, first_message m c # complaint_list complaint)]"
  proof
    fix c
    obtain rest where "nos (fst (makeOne c complaint [] m)) =
                         (c, first_message m c # complaint_list complaint) # rest"
      using makeOne_head [of c complaint "[]" m] by blast
    then show "take 1 (nos (fst (makeOne c complaint [] m))) =
                [(c, first_message m c # complaint_list complaint)]" by simp
  qed
  have c: "\<not> hideTraceback m \<Longrightarrow>
            handleCall (Instance r) [AList codes] complaint soften m =
              (RaisedGroup ''Multiple errors''
                 (map (\<lambda>c. NoBaseException_init (cls r) c complaint None None None None) codes),
               Instance r, m)"
    using assms code_list_instance [of m r codes complaint soften] by (simp add: raiseGroup_def)
  show ?thesis
    using a b c makeAll_fields [of codes complaint m] nos_init_bare [of "cls r" _ complaint]
    by simp
qed

lemma first_message_unregistered:
  "registry m c = None \<Longrightarrow> first_message m c = default_msg c"
  by (simp add: first_message_def registered_msg_def str_or_def)

lemma default_msg_123:
  "default_msg 1 = ''Error 1''" "default_msg 2 = ''Error 2''" "default_msg 3 = ''Error 3''"
  by (simp_all add: value_defs)

theorem code_list_raises_group_witness:
  "[1, 2, 3] \<noteq> ([] :: int list) \<and>
   handleCall Module [AList [1, 2, 3]] None True NoModule_init =
     (RaisedGroup ''Multiple errors''
        [unregistered_exc 1 None, unregistered_exc 2 None, unregistered_exc 3 None],
      Module, NoModule_init) \<and>
   map (\<lambda>e. dict_keys (nos e))
     [unregistered_exc 1 None, unregistered_exc 2 None, unregistered_exc 3 None] =
     [[1], [2], [3]] \<and>
   thread_local_pending NoModule_init = None \<and> pending_value NoModule_init = None"
proof -
  have ne: "[1, 2, 3] \<noteq> ([] :: int list)" by simp
  have r: "\<And>c. registry NoModule_init c = None" by (simp add: NoModule_init_def)
  have mk: "\<And>c. makeOne c None [] NoModule_init = (unregistered_exc c None, NoModule_init)"
    using makeOne_unregistered [OF r] by (simp add: unregistered_exc_init)
  show ?thesis
    using ne code_list_raises_group [OF ne, of None True NoModule_init exc_5] mk
    by (simp add: unregistered_exc_def dict_keys_def NoModule_init_def)
qed

text \<open>
  C7 as stated fails in two places: for the empty list \<open>ExceptionGroup\<close> refuses the empty
  sequence and a \<open>ValueError\<close> is raised, not a group of no errors; and on an exception
  instance with tracebacks hidden the first exception is printed and the process exits,
  so no group is raised.
\<close>

theorem code_list_counterexample:
  "call_outcome [AList []] None False NoModule_init = RaisedValueError \<and>
   fst (handleCall (Instance exc_5) [AList [1, 2, 3]] None False (traceback NoModule_init)) =
     SystemExit 1"
  using code_list_module [of "[]" None False NoModule_init]
  by (simp add: call_outcome_def raiseGroup_def handleCall_def handleExceptionGroup_def
        traceback_def raze_def NoModule_init_def Let_def)

section \<open>The raise-or-stash policy\<close>

lemma single_code_instance_hard:
  "getPending m = None \<Longrightarrow> \<not> dict_get c False (softCodes r) \<Longrightarrow> \<not> hideTraceback m \<Longrightarrow>
   handleCall (Instance r) [AInt c] complaint False m =
     (Raised (mergeCode c (default_msg c) complaint False r),
      Instance (mergeCode c (default_msg c) complaint False r), m)"
  by (simp add: handleCall_def handleSingleCode_def getRegistryEntry_def handleSoftOrRaise_def
        Let_def)

text \<open>
  C1, as the code has it. The raise-or-stash policy decides the calls on the module
  that build a fresh exception for a code \<open>c\<close>: the single-code and the code+message
  call when nothing is pending, and the code+exception call always. If the registered
  soft flag of \<open>c\<close> is true or the caller passes \<open>soften\<close>, the exception is stored in the
  pending slot of the call scope and the call returns; otherwise it is raised, or, with
  tracebacks hidden, its text is printed and the process exits with status 1. The
  exception has \<open>c\<close> as its first key.
\<close>

theorem raise_or_stash_on_module:
  "(getPending m = None \<longrightarrow>
      handleCall Module [AInt c] complaint soften m =
        raise_or_stash (registered_soft m c \<or> soften) (makeOne c complaint [] m) \<and>
      handleCall Module [AInt c, AStr s] complaint soften m =
        raise_or_stash (registered_soft m c \<or> soften) (makeOne c (Some s) [] m)) \<and>
   handleCall Module [AInt c, AExc x] complaint soften m =
     raise_or_stash (registered_soft m c \<or> soften) (makeOne c complaint [x] m) \<and>
   (\<forall>cm l. take 1 (nos (fst (makeOne c cm l m))) = [(c, first_message m c # complaint_list cm)])"
proof -
  have a: "getPending m = None \<Longrightarrow>
      handleCall Module [AInt c] complaint soften m =
        raise_or_stash (registered_soft m c \<or> soften) (makeOne c complaint [] m)"
    using single_code_fresh_module [of m c complaint soften]
    by (cases "makeOne c complaint [] m") (simp add: handleSoftOrRaise_policy)
  have b: "getPending m = None \<Longrightarrow>
      handleCall Module [AInt c, AStr s] complaint soften m =
        raise_or_stash (registered_soft m c \<or> soften) (makeOne c (Some s) [] m)"
    using code_message_fresh_module [of m c s complaint soften]
    by (cases "makeOne c (Some s) [] m") (simp add: handleSoftOrRaise_policy)
  have c: "handleCall Module [AInt c, AExc x] complaint soften m =
     raise_or_stash (registered_soft m c \<or> soften) (makeOne c complaint [x] m)"
    using code_exception_module [of c x complaint soften m]
    by (cases "makeOne c complaint [x] m") (simp add: handleSoftOrRaise_policy)
  have d: "\<forall>cm l. take 1 (nos (fst (makeOne c cm l m))) =
                   [(c, first_message m c # complaint_list cm)]"
  proof (intro allI)
    fix cm l
    obtain rest where "nos (fst (makeOne c cm l m)) =
                         (c, first_message m c # complaint_list cm) # rest"
      using makeOne_head [of c cm l m] by blast
    then show "take 1 (nos (fst (makeOne c cm l m))) =
                 [(c, first_message m c # complaint_list cm)]" by simp
  qed
  show ?thesis using a b c d by blast
qed

lemma registered_soft_init: "registered_soft NoModule_init c = False"
  by (simp add: registered_soft_def NoModule_init_def)

lemma module_7_soft_state:
  "registered_soft module_7_soft 7 \<and> getPending module_7_soft = None \<and>
   \<not> hideTraceback module_7_soft \<and>
   registry module_7_soft 7 = Some (''Error7'', ''Error 7'', [], True)"
  by (simp add: module_7_soft_def likey_def NoModule_init_def registered_soft_def entry_soft_def
        getPending_def value_defs)

theorem raise_or_stash_on_module_witness:
  "getPending module_7_soft = None \<and> registered_soft module_7_soft 7 \<and>
   \<not> registered_soft module_7_soft 5 \<and>
   handleCall Module [AInt 7] None False module_7_soft =
     (Returned, Module,
      (snd (makeOne 7 None [] module_7_soft))
        \<lparr> thread_local_pending := Some (fst (makeOne 7 None [] module_7_soft)) \<rparr>) \<and>
   handleCall Module [AInt 5, AStr ''boom''] None True module_7_soft =
     (Returned, Module,
      module_7_soft \<lparr> thread_local_pending := Some (unregistered_exc 5 (Some ''boom'')) \<rparr>) \<and>
   handleCall Module [AInt 5] None False module_7_soft =
     (Raised (unregistered_exc 5 None), Module, module_7_soft) \<and>
   handleCall Module [AInt 5, AStr ''boom''] None False (traceback module_7_soft) =
     (SystemExit 1, Module,
      (traceback module_7_soft)
        \<lparr> stdout := stdout (traceback module_7_soft) @
                     [str_exc (unregistered_exc 5 (Some ''boom''))] \<rparr>)"
proof -
  have r5: "registry module_7_soft 5 = None" "registry (traceback module_7_soft) 5 = None"
    by (simp_all add: module_7_soft_def likey_def NoModule_init_def traceback_def Let_def)
  have s5: "\<not> registered_soft module_7_soft 5" "\<not> registered_soft (traceback module_7_soft) 5"
    using r5 by (simp_all add: registered_soft_def)
  have npt: "getPending (traceback module_7_soft) = None"
    using module_7_soft_state by (simp add: traceback_def getPending_def split: option.splits)
  have ht: "hideTraceback (traceback module_7_soft)" by (simp add: traceback_def)
  have mk: "\<And>cm. makeOne 5 cm [] module_7_soft = (unregistered_exc 5 cm, module_7_soft)"
           "\<And>cm. makeOne 5 cm [] (traceback module_7_soft) =
                  (unregistered_exc 5 cm, traceback module_7_soft)"
    using makeOne_unregistered [OF r5(1)] makeOne_unregistered [OF r5(2)]
    by (simp_all add: unregistered_exc_init)
  show ?thesis
    using module_7_soft_state s5 npt ht mk
      raise_or_stash_on_module [of module_7_soft 7 None False "''boom''" "Foreign [] [] None"]
      raise_or_stash_on_module [of module_7_soft 5 None True "''boom''" "Foreign [] [] None"]
      raise_or_stash_on_module [of module_7_soft 5 None False "''boom''" "Foreign [] [] None"]
      raise_or_stash_on_module [of "traceback module_7_soft" 5 None False "''boom''"
                                   "Foreign [] [] None"]
    by (simp add: raise_or_stash_def split: prod.splits)
qed

lemma module_404_pending_state:
  "registered_soft module_404_pending 404 = False \<and>
   registry module_404_pending 404 = Some (''Error404'', ''Not Found'', [], False) \<and>
   (\<exists>p. getPending module_404_pending = Some p)"
proof -
  let ?m = "likey 404 ''Not Found'' None False NoModule_init"
  have np: "getPending ?m = None" by (simp add: likey_def NoModule_init_def getPending_def Let_def)
  have r: "registry ?m 404 = Some (''Error404'', ''Not Found'', [], False)"
    by (simp add: likey_def NoModule_init_def value_defs)
  show ?thesis using soften_call_sets_pending [OF np, of 1 None] r
    by (simp add: module_404_pending_def registered_soft_def entry_soft_def)
qed

text \<open>
  C1 as stated fails for other calls that produce or augment an exception. With an
  exception pending, the single-code call with the hard code 404 and without \<open>soften\<close>
  merges and returns instead of raising. On an exception instance the soft flag is read
  from the receiver's own \<open>_softCodes\<close>, not from the registry: code 7 is registered
  soft, yet the call raises the receiver.
\<close>

theorem raise_or_stash_counterexample:
  "registered_soft module_404_pending 404 = False \<and>
   call_outcome [AInt 404] None False module_404_pending = Returned \<and>
   registered_soft module_7_soft 7 \<and>
   fst (handleCall (Instance exc_5) [AInt 7] None False module_7_soft) =
     Raised (mergeCode 7 (default_msg 7) None False exc_5)"
proof -
  obtain p where p: "getPending module_404_pending = Some p"
    using module_404_pending_state by blast
  have a: "call_outcome [AInt 404] None False module_404_pending = Returned"
    using single_code_pending [OF p, of Module 404 None False] by (simp add: call_outcome_def)
  have s: "\<not> dict_get 7 False (softCodes exc_5)"
    by (simp add: exc_5_value dict_get_def)
  have b: "fst (handleCall (Instance exc_5) [AInt 7] None False module_7_soft) =
             Raised (mergeCode 7 (default_msg 7) None False exc_5)"
    using single_code_instance_hard [of module_7_soft 7 exc_5 None] s module_7_soft_state
    by simp
  show ?thesis using a b module_404_pending_state module_7_soft_state by simp
qed

end
